theory Spec2Isabelle
  imports Main "HOL-Library.Word"
begin

unbundle bit_operations_syntax

section \<open>Errors and JavaScript values\<close>

text \<open>
  Every \<open>throw\<close> of \<open>hdf5.js\<close> is a value of \<open>error\<close>.  \<open>HDF5_Error\<close> is
  \<open>hdf5.Error\<close>, \<open>Plain_Error\<close> the built-in \<open>Error\<close>, \<open>Type_Error\<close> and
  \<open>Range_Error\<close> the exceptions raised by the JavaScript engine itself.  The string
  is the message with its interpolated part left out.
\<close>

datatype error =
    HDF5_Error string
  | Plain_Error string
  | Type_Error string
  | Range_Error string

type_synonym byte = "8 word"

record GlobalHeapID =
  address :: "int option"
  objectIndex :: nat

text \<open>
  A global heap object, seen through \<open>reader.string(reader.length(), encoding)\<close> at the
  object's position: the text it yields under each of the two encodings.
\<close>

record GlobalHeapObject =
  ascii_text :: "error + string"
  utf8_text :: "error + string"

text \<open>
  \<open>GlobalHeap.get\<close>: the collection at an address is parsed on first use (which may
  throw) and then holds a \<open>Map\<close> from object index to object.
\<close>

type_synonym GlobalHeapCollection = "nat \<rightharpoonup> GlobalHeapObject"

type_synonym GlobalHeap = "int option \<Rightarrow> error + GlobalHeapCollection"

datatype jsval =
    JUndefined
  | JNull
  | JNumber int
  | JBigInt int
  | JString string
  | JBytes "byte list"
  | JVarLen nat GlobalHeapID
  | JArray "jsval list"
  | JGlobalHeap GlobalHeap

section \<open>Datatype\<close>

datatype Datatype =
  Datatype (dt_class: nat) (dt_flags: "32 word") (dt_size: nat)
    (dt_base: "Datatype option") (dt_names: "string list") (dt_values: "jsval list")

text \<open>JavaScript \<open>a && b\<close> on numbers: \<open>a\<close> when \<open>a\<close> is falsy (zero), else \<open>b\<close>.\<close>

definition js_logical_and :: "32 word \<Rightarrow> 32 word \<Rightarrow> 32 word" where
  "js_logical_and a b = (if a = 0 then a else b)"

fun Datatype_type :: "Datatype \<Rightarrow> error + string" where
  "Datatype_type (Datatype cls flags sz base names vals) =
    (let unsupported = Inl (HDF5_Error ''Unsupported datatype class'') in
     if cls = 0 then
       (if flags AND 0xfff6 = 0 then
          (if js_logical_and flags 0x08 = 0 then
             (if sz = 1 then Inr ''uint8''
              else if sz = 2 then Inr ''uint16''
              else if sz = 4 then Inr ''uint32''
              else if sz = 8 then Inr ''uint64''
              else Inl (HDF5_Error ''Unsupported uint size''))
           else
             (if sz = 1 then Inr ''int8''
              else if sz = 2 then Inr ''int16''
              else if sz = 4 then Inr ''int32''
              else if sz = 8 then Inr ''int64''
              else Inl (HDF5_Error ''Unsupported int size'')))
        else unsupported)
     else if cls = 1 then
       (if sz = 2 \<and> flags = 0x0f20 then Inr ''float16''
        else if sz = 4 \<and> flags = 0x1f20 then Inr ''float32''
        else if sz = 8 \<and> flags = 0x3f20 then Inr ''float64''
        else unsupported)
     else if cls = 3 then Inr ''string''
     else if cls = 5 then Inr ''uint8''
     else if cls = 6 then Inr ''compound''
     else if cls = 8 then
       (case base of
          None \<Rightarrow> Inl (Type_Error ''Cannot read properties of undefined'')
        | Some b \<Rightarrow>
            (case Datatype_type b of
               Inl e \<Rightarrow> Inl e
             | Inr t \<Rightarrow>
                 if t = ''int8'' \<and> names = [''FALSE'', ''TRUE'']
                    \<and> vals = [JNumber 0, JNumber 1]
                 then Inr ''boolean'' else unsupported))
     else if cls = 9 then
       (if flags AND 0x0f = 1 then Inr ''char[]'' else unsupported)
     else unsupported)"

text \<open>
  The getter \<open>littleEndian\<close> reads \<open>this.flags\<close>.  The class stores its flags in
  \<open>_flags\<close> and has neither a field nor an accessor called \<open>flags\<close>, so the read
  yields \<open>undefined\<close>, which \<open>&\<close> converts to the 32-bit integer 0.
\<close>

definition Datatype_flags :: "Datatype \<Rightarrow> 32 word option" where
  "Datatype_flags d = None"

definition ToInt32 :: "32 word option \<Rightarrow> 32 word" where
  "ToInt32 v = (case v of None \<Rightarrow> 0 | Some w \<Rightarrow> w)"

definition littleEndian :: "Datatype \<Rightarrow> bool" where
  "littleEndian d =
    (if dt_class d = 0 \<or> dt_class d = 1
     then (ToInt32 (Datatype_flags d) AND 0x01) = 0
     else True)"

section \<open>Reader\<close>

text \<open>
  \<open>hdf5.BinaryReader\<close>, the reader \<open>hdf5.Reader.open\<close> builds over a
  \<open>Uint8Array\<close>.  \<open>r_offset\<close> and \<open>r_position\<close> are the fields \<open>_offset\<close> and
  \<open>_position\<close>; the sizes are \<open>undefined\<close> (\<open>None\<close>) until \<open>initialize\<close> runs.
\<close>

record Reader =
  buffer :: "byte list"
  r_offset :: int
  r_position :: int
  offsetSize :: "nat option"
  lengthSize :: "nat option"

definition bind_err :: "error + 'a \<Rightarrow> ('a \<Rightarrow> error + 'b) \<Rightarrow> error + 'b" where
  "bind_err m f = (case m of Inl e \<Rightarrow> Inl e | Inr x \<Rightarrow> f x)"

definition Reader_open :: "byte list \<Rightarrow> Reader" where
  "Reader_open data =
    \<lparr>buffer = data, r_offset = 0, r_position = 0, offsetSize = None, lengthSize = None\<rparr>"

definition position :: "Reader \<Rightarrow> int" where
  "position r = r_position r + r_offset r"

definition skip :: "int \<Rightarrow> Reader \<Rightarrow> error + Reader" where
  "skip n r =
    (let r' = r\<lparr>r_position := r_position r + n\<rparr> in
     if r_offset r' + r_position r' > int (length (buffer r'))
     then Inl (HDF5_Error ''Unexpected end of file.'')
     else Inr r')"

definition seek :: "int \<Rightarrow> Reader \<Rightarrow> error + Reader" where
  "seek pos r =
    (let r' = r\<lparr>r_offset := pos, r_position := 0\<rparr> in
     if r_offset r' > int (length (buffer r'))
     then Inl (Plain_Error ''Unexpected end of file.'')
     else Inr r')"

definition take_bytes :: "int \<Rightarrow> Reader \<Rightarrow> error + (int \<times> Reader)" where
  "take_bytes n r = bind_err (skip n r) (\<lambda>r'. Inr (r_offset r + r_position r, r'))"

text \<open>
  The \<open>DataView\<close> getters: a \<open>RangeError\<close> outside the buffer, else the bytes at the
  position, read little-endian.
\<close>

definition view_bytes :: "Reader \<Rightarrow> int \<Rightarrow> nat \<Rightarrow> error + byte list" where
  "view_bytes r pos n =
    (if 0 \<le> pos \<and> pos + int n \<le> int (length (buffer r))
     then Inr (take n (drop (nat pos) (buffer r)))
     else Inl (Range_Error ''Offset is outside the bounds of the DataView''))"

fun le_value :: "byte list \<Rightarrow> int" where
  "le_value [] = 0"
| "le_value (b # bs) = uint b + 256 * le_value bs"

definition getUint :: "nat \<Rightarrow> Reader \<Rightarrow> error + (int \<times> Reader)" where
  "getUint n r =
    bind_err (take_bytes (int n) r) (\<lambda>(pos, r').
    bind_err (view_bytes r' pos n) (\<lambda>bs. Inr (le_value bs, r')))"

definition byte :: "Reader \<Rightarrow> error + (int \<times> Reader)" where
  "byte = getUint 1"

definition uint16 :: "Reader \<Rightarrow> error + (int \<times> Reader)" where
  "uint16 = getUint 2"

definition uint32 :: "Reader \<Rightarrow> error + (int \<times> Reader)" where
  "uint32 = getUint 4"

definition initialize :: "Reader \<Rightarrow> error + Reader" where
  "initialize r =
    bind_err (byte r) (\<lambda>(os, r1).
    bind_err (byte (r1\<lparr>offsetSize := Some (nat os)\<rparr>)) (\<lambda>(ls, r2).
    Inr (r2\<lparr>lengthSize := Some (nat ls)\<rparr>)))"

text \<open>
  \<open>offset()\<close>: an address, \<open>-1\<close> for the 8-byte all-ones pattern, \<open>undefined\<close>
  (\<open>None\<close>) for the 4-byte one.
\<close>

definition MAX_SAFE_INTEGER :: int where
  "MAX_SAFE_INTEGER = 2 ^ 53 - 1"

definition offset :: "Reader \<Rightarrow> error + (int option \<times> Reader)" where
  "offset r =
    (if offsetSize r = Some 8 then
       bind_err (getUint 8 r) (\<lambda>(v, r').
         if v = 0xffffffffffffffff then Inr (Some (- 1), r')
         else if v \<ge> MAX_SAFE_INTEGER then Inl (Plain_Error ''64-bit value exceeds safe integer.'')
         else Inr (Some v, r'))
     else if offsetSize r = Some 4 then
       bind_err (uint32 r) (\<lambda>(v, r').
         if v = 0xffffffff then Inr (None, r') else Inr (Some v, r'))
     else Inl (HDF5_Error ''Unsupported offset size''))"

section \<open>Symbol table entries and groups\<close>

text \<open>
  \<open>treeAddress\<close> and \<open>heapAddress\<close> exist only for cache type 1; a missing property
  reads as \<open>undefined\<close>, which is \<open>None\<close> here as well.
\<close>

record SymbolTableEntry =
  linkNameOffset :: "int option"
  objectHeaderAddress :: "int option"
  treeAddress :: "int option"
  heapAddress :: "int option"

definition SymbolTableEntry_new :: "Reader \<Rightarrow> error + (SymbolTableEntry \<times> Reader)" where
  "SymbolTableEntry_new r =
    bind_err (offset r) (\<lambda>(lno, r1).
    bind_err (offset r1) (\<lambda>(oha, r2).
    bind_err (uint32 r2) (\<lambda>(cacheType, r3).
    bind_err (skip 4 r3) (\<lambda>r4.
    bind_err
      (if cacheType = 0 then
         Inr (\<lparr>linkNameOffset = lno, objectHeaderAddress = oha,
               treeAddress = None, heapAddress = None\<rparr>, r4)
       else if cacheType = 1 then
         bind_err (offset r4) (\<lambda>(ta, r5).
         bind_err (offset r5) (\<lambda>(ha, r6).
         bind_err (seek (position r4) r6) (\<lambda>r7.
         Inr (\<lparr>linkNameOffset = lno, objectHeaderAddress = oha,
               treeAddress = ta, heapAddress = ha\<rparr>, r7))))
       else Inl (HDF5_Error ''Unsupported cache type''))
      (\<lambda>(entry, r8).
    bind_err (skip 16 r8) (\<lambda>r9. Inr (entry, r9)))))))"

text \<open>
  A group as its constructor leaves it: the entry or the object header it was built
  from, its name and its path.  \<open>'h\<close> is the type of decoded object headers.
\<close>

record 'h Group =
  g_entry :: "SymbolTableEntry option"
  g_dataObjectHeader :: "'h option"
  g_name :: string
  g_path :: string

definition Group_new ::
  "SymbolTableEntry option \<Rightarrow> 'h option \<Rightarrow> string \<Rightarrow> string \<Rightarrow> 'h Group" where
  "Group_new entry objectHeader parentPath name =
    \<lparr>g_entry = entry, g_dataObjectHeader = objectHeader, g_name = name,
     g_path = (if parentPath = ''/'' then parentPath @ name else parentPath @ ''/'' @ name)\<rparr>"

section \<open>File\<close>

definition signature :: "byte list" where
  "signature = [0x89, 0x48, 0x44, 0x46, 0x0D, 0x0A, 0x1A, 0x0A]"

definition File_open :: "byte list \<Rightarrow> byte list option" where
  "File_open data =
    (if length data \<ge> 8 \<and> take 8 data = signature then Some data else None)"

record 'h File =
  superblockVersion :: int
  baseAddress :: "int option"
  endOfFileAddress :: "int option"
  rootGroup :: "'h Group"

text \<open>
  \<open>File.read\<close>.  The constructor of \<open>hdf5.DataObjectHeader\<close> (the whole message
  dispatcher behind it) is the parameter \<open>DataObjectHeader_new\<close>.  In the version 1
  branch the statement \<open>this.skip(2)\<close> calls a method the \<open>File\<close> class does not
  have, which raises a \<open>TypeError\<close>.
\<close>

definition File_read ::
  "(Reader \<Rightarrow> int option \<Rightarrow> error + ('h \<times> Reader)) \<Rightarrow> byte list \<Rightarrow> error + 'h File" where
  "File_read DataObjectHeader_new data =
    bind_err (skip 8 (Reader_open data)) (\<lambda>r0.
    bind_err (byte r0) (\<lambda>(version, r1).
    if version = 0 \<or> version = 1 then
      bind_err (byte r1) (\<lambda>(freeSpaceStorageVersion, r2).
      bind_err (byte r2) (\<lambda>(rootGroupEntryVersion, r3).
      bind_err (skip 1 r3) (\<lambda>r4.
      bind_err (byte r4) (\<lambda>(sharedHeaderMessageVersionFormat, r5).
      bind_err (initialize r5) (\<lambda>r6.
      bind_err (skip 1 r6) (\<lambda>r7.
      bind_err (uint16 r7) (\<lambda>(groupLeafNodeK, r8).
      bind_err (uint16 r8) (\<lambda>(groupInternalNodeK, r9).
      bind_err (skip 4 r9) (\<lambda>r10.
      bind_err
        (if version > 0 then
           bind_err (uint16 r10) (\<lambda>(indexedStorageInternalNodeK, r11).
           Inl (Type_Error ''this.skip is not a function''))
         else Inr r10)
        (\<lambda>r12.
      bind_err (offset r12) (\<lambda>(base, r13).
      bind_err (offset r13) (\<lambda>(freeSpaceInfo, r14).
      bind_err (offset r14) (\<lambda>(eof, r15).
      bind_err (offset r15) (\<lambda>(driverInfo, r16).
      if base \<noteq> Some 0 then Inl (HDF5_Error ''Base address is not zero.'')
      else
        bind_err (SymbolTableEntry_new r16) (\<lambda>(rootGroupEntry, r17).
        Inr \<lparr>superblockVersion = version, baseAddress = base, endOfFileAddress = eof,
             rootGroup = Group_new (Some rootGroupEntry) None [] []\<rparr>)))))))))))))))
    else if version = 2 \<or> version = 3 then
      bind_err (initialize r1) (\<lambda>r2.
      bind_err (byte r2) (\<lambda>(consistencyFlags, r3).
      bind_err (offset r3) (\<lambda>(base, r4).
      bind_err (offset r4) (\<lambda>(superBlockExtensionAddress, r5).
      bind_err (offset r5) (\<lambda>(eof, r6).
      bind_err (offset r6) (\<lambda>(rootAddress, r7).
      bind_err (DataObjectHeader_new r7 rootAddress) (\<lambda>(rootGroupObjectHeader, r8).
      Inr \<lparr>superblockVersion = version, baseAddress = base, endOfFileAddress = eof,
           rootGroup = Group_new None (Some rootGroupObjectHeader) [] []\<rparr>)))))))
    else Inl (HDF5_Error ''Unsupported Superblock version'')))"

text \<open>
  Two superblocks used as concrete inputs below: version 0 and version 1, with 8-byte
  offsets and lengths.
\<close>

definition superblock_v0 :: "byte list" where
  "superblock_v0 = signature @
     [0, 0, 0, 0, 0, 8, 8, 0, 4, 0, 16, 0, 0, 0, 0, 0] @
     [0, 0, 0, 0, 0, 0, 0, 0] @ [255, 255, 255, 255, 255, 255, 255, 255] @
     [96, 0, 0, 0, 0, 0, 0, 0] @ [255, 255, 255, 255, 255, 255, 255, 255] @
     [0, 0, 0, 0, 0, 0, 0, 0] @ [96, 0, 0, 0, 0, 0, 0, 0] @ [0, 0, 0, 0] @ [0, 0, 0, 0] @
     [0, 0, 0, 0, 0, 0, 0, 0, 0, 0, 0, 0, 0, 0, 0, 0]"

definition superblock_v1 :: "byte list" where
  "superblock_v1 = signature @
     [1, 0, 0, 0, 0, 8, 8, 0, 4, 0, 16, 0, 0, 0, 0, 0, 32, 0, 0, 0] @
     [0, 0, 0, 0, 0, 0, 0, 0] @ [255, 255, 255, 255, 255, 255, 255, 255] @
     [100, 0, 0, 0, 0, 0, 0, 0] @ [255, 255, 255, 255, 255, 255, 255, 255] @
     [0, 0, 0, 0, 0, 0, 0, 0] @ [100, 0, 0, 0, 0, 0, 0, 0] @ [0, 0, 0, 0] @ [0, 0, 0, 0] @
     [0, 0, 0, 0, 0, 0, 0, 0, 0, 0, 0, 0, 0, 0, 0, 0]"

section \<open>The group tree\<close>

text \<open>
  What \<open>_decodeGroups\<close> finds in the file for one object: its symbol table entry or
  object header, and the links to its children in file order, each a name (from the local
  heap or from a Link message) and the object it leads to.
\<close>

datatype 'h obj =
  Obj (obj_entry: "SymbolTableEntry option") (obj_header: "'h option")
      (obj_links: "(string \<times> 'h obj) list")

text \<open>A group with its decoded \<open>_groups\<close> map, an association list in insertion order.\<close>

datatype 'h GroupNode =
  GroupNode (node_group: "'h Group") (node_groups: "(string \<times> 'h GroupNode) list")

text \<open>\<open>Map.prototype.set\<close>: a key already present keeps its place and takes the new value.\<close>

fun Map_set :: "('k \<times> 'v) list \<Rightarrow> 'k \<Rightarrow> 'v \<Rightarrow> ('k \<times> 'v) list" where
  "Map_set [] k v = [(k, v)]"
| "Map_set ((k', v') # m) k v = (if k' = k then (k, v) # m else (k', v') # Map_set m k v)"


text \<open>
  The constructor followed by \<open>_decodeGroups\<close>, here run eagerly on the whole tree:
  every child is built by \<open>new hdf5.Group(..., this._path, name)\<close> and stored under its
  name.
\<close>

fun decodeGroups :: "'h obj \<Rightarrow> string \<Rightarrow> string \<Rightarrow> 'h GroupNode" where
  "decodeGroups (Obj entry header links) parentPath name =
    (let this = Group_new entry header parentPath name in
     GroupNode this
       (fold (\<lambda>link groups.
                Map_set groups (fst link) (decodeGroups (snd link) (g_path this) (fst link)))
             links []))"






text \<open>
  A file of 72 bytes: a version 0 superblock with 4-byte offsets and lengths and base
  address 0, whose root symbol table entry has cache type 1 and names a B-tree at 136
  and a local heap at 168, both beyond the end of the file.  \<open>heap_root\<close> is the root
  group \<open>File.read\<close> builds from it and \<open>heap_reader\<close> the reader as \<open>File.read\<close>
  leaves it.
\<close>

definition heap_file :: "byte list" where
  "heap_file = signature @
     [0, 0, 0, 0, 0, 4, 4, 0, 4, 0, 16, 0, 0, 0, 0, 0] @
     [0, 0, 0, 0] @ [255, 255, 255, 255] @ [72, 0, 0, 0] @ [255, 255, 255, 255] @
     [0, 0, 0, 0] @ [40, 0, 0, 0] @ [1, 0, 0, 0] @ [0, 0, 0, 0] @
     [136, 0, 0, 0] @ [168, 0, 0, 0] @ [0, 0, 0, 0, 0, 0, 0, 0]"


definition heap_reader :: Reader where
  "heap_reader =
    \<lparr>buffer = heap_file, r_offset = 56, r_position = 16, offsetSize = Some 4,
     lengthSize = Some 4\<rparr>"




text \<open>All groups of a decoded tree, the root first.\<close>

fun subgroups :: "'h GroupNode \<Rightarrow> 'h GroupNode list" where
  "subgroups (GroupNode g children) =
    GroupNode g children # concat (map (\<lambda>c. subgroups (snd c)) children)"

text \<open>How the constructor composes the path of a child \<open>c\<close> stored in the group \<open>g\<close>.\<close>

definition child_path_ok :: "'h GroupNode \<Rightarrow> (string \<times> 'h GroupNode) \<Rightarrow> bool" where
  "child_path_ok g c \<longleftrightarrow>
     g_name (node_group (snd c)) = fst c \<and>
     g_path (node_group (snd c)) =
       (if g_path (node_group g) = ''/'' then ''/'' @ fst c
        else g_path (node_group g) @ ''/'' @ fst c)"

definition example_tree :: "unit obj" where
  "example_tree =
     Obj None None [(''parent'', Obj None None [(''name'', Obj None None [])])]"

definition v0_file :: "unit File" where
  "v0_file =
    \<lparr>superblockVersion = 0, baseAddress = Some 0, endOfFileAddress = Some 96,
     rootGroup = \<lparr>g_entry = Some \<lparr>linkNameOffset = Some 0, objectHeaderAddress = Some 96,
                                   treeAddress = None, heapAddress = None\<rparr>,
                  g_dataObjectHeader = None, g_name = [], g_path = ''/''\<rparr>\<rparr>"

definition parent_node :: "unit GroupNode" where
  "parent_node = decodeGroups (Obj None None [(''name'', Obj None None [])]) ''/'' ''parent''"

definition name_node :: "unit GroupNode" where
  "name_node = decodeGroups (Obj None None []) ''/parent'' ''name''"

section \<open>Object header messages\<close>

text \<open>
  The fields \<open>_readMessage\<close> assigns.  \<open>'m\<close> is the type of parsed message bodies;
  \<open>None\<close> stands for a field that is unset or \<open>null\<close>.
\<close>

record 'm DataObjectHeader =
  h_attributes :: "'m list"
  h_links :: "'m list"
  h_continuations :: "'m list"
  h_dataspace :: "'m option"
  h_linkInfo :: "'m option"
  h_datatype :: "'m option"
  h_fillValue :: "'m option"
  h_dataLayout :: "'m option"
  h_groupInfo :: "'m option"
  h_filterPipeline :: "'m option"
  h_comment :: "'m option"
  h_symbolTable :: "'m option"
  h_objectModificationTime :: "'m option"
  h_attributeInfo :: "'m option"

text \<open>
  \<open>DataObjectHeader._readMessage\<close>.  The message constructors (\<open>new hdf5.Dataspace(reader)\<close>
  and the others, and \<open>reader.string\<close> for the comment) are the parameter \<open>parse\<close>: given
  the message type and the reader they fail or return the body and the reader as they left
  it, wherever that is.  The result is the returned flag, the reader and the header.
\<close>

definition readMessage ::
  "(nat \<Rightarrow> Reader \<Rightarrow> error + ('m \<times> Reader)) \<Rightarrow> Reader \<Rightarrow> 'm DataObjectHeader
     \<Rightarrow> nat \<Rightarrow> int \<Rightarrow> int \<Rightarrow> error + (bool \<times> Reader \<times> 'm DataObjectHeader)" where
  "readMessage parse reader this type msize flags =
    (let pos = position reader in
     if type = 0x0000 then Inr (False, reader, this)
     else
       bind_err
         (if type = 0x0001 then
            (if msize \<noteq> 4 \<or> flags \<noteq> 1
             then bind_err (parse type reader) (\<lambda>(m, r). Inr (r, this\<lparr>h_dataspace := Some m\<rparr>))
             else Inr (reader, this\<lparr>h_dataspace := None\<rparr>))
          else if type = 0x0002 then
            bind_err (parse type reader) (\<lambda>(m, r). Inr (r, this\<lparr>h_linkInfo := Some m\<rparr>))
          else if type = 0x0003 then
            bind_err (parse type reader) (\<lambda>(m, r). Inr (r, this\<lparr>h_datatype := Some m\<rparr>))
          else if type = 0x0004 \<or> type = 0x0005 then
            bind_err (parse type reader) (\<lambda>(m, r). Inr (r, this\<lparr>h_fillValue := Some m\<rparr>))
          else if type = 0x0006 then
            bind_err (parse type reader) (\<lambda>(m, r). Inr (r, this\<lparr>h_links := h_links this @ [m]\<rparr>))
          else if type = 0x0008 then
            bind_err (parse type reader) (\<lambda>(m, r). Inr (r, this\<lparr>h_dataLayout := Some m\<rparr>))
          else if type = 0x000A then
            bind_err (parse type reader) (\<lambda>(m, r). Inr (r, this\<lparr>h_groupInfo := Some m\<rparr>))
          else if type = 0x000B then
            bind_err (parse type reader) (\<lambda>(m, r). Inr (r, this\<lparr>h_filterPipeline := Some m\<rparr>))
          else if type = 0x000C then
            bind_err (parse type reader)
              (\<lambda>(m, r). Inr (r, this\<lparr>h_attributes := h_attributes this @ [m]\<rparr>))
          else if type = 0x000D then
            bind_err (parse type reader) (\<lambda>(m, r). Inr (r, this\<lparr>h_comment := Some m\<rparr>))
          else if type = 0x0010 then
            bind_err (parse type reader)
              (\<lambda>(m, r). Inr (r, this\<lparr>h_continuations := h_continuations this @ [m]\<rparr>))
          else if type = 0x0011 then
            bind_err (parse type reader) (\<lambda>(m, r). Inr (r, this\<lparr>h_symbolTable := Some m\<rparr>))
          else if type = 0x000E \<or> type = 0x0012 then
            bind_err (parse type reader)
              (\<lambda>(m, r). Inr (r, this\<lparr>h_objectModificationTime := Some m\<rparr>))
          else if type = 0x0015 then
            bind_err (parse type reader) (\<lambda>(m, r). Inr (r, this\<lparr>h_attributeInfo := Some m\<rparr>))
          else Inl (HDF5_Error ''Unsupported message type''))
         (\<lambda>(r1, this').
            bind_err (seek pos r1) (\<lambda>r2.
            bind_err (skip msize r2) (\<lambda>r3. Inr (True, r3, this')))))"

definition empty_header :: "unit DataObjectHeader" where
  "empty_header =
    \<lparr>h_attributes = [], h_links = [], h_continuations = [], h_dataspace = None,
     h_linkInfo = None, h_datatype = None, h_fillValue = None, h_dataLayout = None,
     h_groupInfo = None, h_filterPipeline = None, h_comment = None, h_symbolTable = None,
     h_objectModificationTime = None, h_attributeInfo = None\<rparr>"

text \<open>A message body parser that reads three bytes, and a 16-byte buffer to run it on.\<close>

definition parse3 :: "nat \<Rightarrow> Reader \<Rightarrow> error + (unit \<times> Reader)" where
  "parse3 type r = bind_err (skip 3 r) (\<lambda>r'. Inr ((), r'))"

definition message_reader :: Reader where
  "message_reader = Reader_open [0, 0, 0, 0, 0, 0, 0, 0, 0, 0, 0, 0, 0, 0, 0, 0]"

section \<open>Object headers\<close>

text \<open>
  \<open>match(signature)\<close> compares the bytes at the reader with the characters of the
  signature and seeks back to where it started at the first difference; \<open>align(mod)\<close>
  rounds \<open>_position\<close> up to a multiple of \<open>mod\<close>, with no test against the length.
\<close>

fun match_from :: "int \<Rightarrow> string \<Rightarrow> Reader \<Rightarrow> error + (bool \<times> Reader)" where
  "match_from pos [] r = Inr (True, r)"
| "match_from pos (c # cs) r =
    bind_err (byte r) (\<lambda>(b, r').
      if of_char c \<noteq> b then bind_err (seek pos r') (\<lambda>r''. Inr (False, r''))
      else match_from pos cs r')"

definition match :: "string \<Rightarrow> Reader \<Rightarrow> error + (bool \<times> Reader)" where
  "match sig r = match_from (position r) sig r"

definition align :: "int \<Rightarrow> Reader \<Rightarrow> Reader" where
  "align m r =
    (if r_position r mod m \<noteq> 0 then r\<lparr>r_position := (r_position r div m + 1) * m\<rparr> else r)"

text \<open>The header as the constructor has it before the first message is read.\<close>

definition new_header :: "'m DataObjectHeader" where
  "new_header =
    \<lparr>h_attributes = [], h_links = [], h_continuations = [], h_dataspace = None,
     h_linkInfo = None, h_datatype = None, h_fillValue = None, h_dataLayout = None,
     h_groupInfo = None, h_filterPipeline = None, h_comment = None, h_symbolTable = None,
     h_objectModificationTime = None, h_attributeInfo = None\<rparr>"

text \<open>\<open>for (let i = 0; i < count; i++)\<close> around a loop body that may throw.\<close>

fun message_loop :: "('s \<Rightarrow> error + 's) \<Rightarrow> nat \<Rightarrow> 's \<Rightarrow> error + 's" where
  "message_loop message 0 s = Inr s"
| "message_loop message (Suc n) s = bind_err (message s) (message_loop message n)"

text \<open>
  The constructor of \<open>hdf5.DataObjectHeader\<close> at a numeric address.  Written out are
  the seek to the address, the optional \<open>OHDR\<close> signature, the version byte, the prefix
  of a version 1 header (message count, reference count, header size, alignment), the
  loop over the \<open>count\<close> messages, the refusal of other versions and the final seek
  back.  Two parts are parameters: \<open>message\<close>, the body of the version 1 loop (it
  reads one message through \<open>_readMessage\<close> and may follow a continuation) acting on
  the reader, the header and \<open>end\<close>; and \<open>version2\<close>, the whole \<open>case 2\<close> block.
\<close>

definition DataObjectHeader_new ::
  "(Reader \<times> 'm DataObjectHeader \<times> int option
      \<Rightarrow> error + (Reader \<times> 'm DataObjectHeader \<times> int option))
     \<Rightarrow> (Reader \<Rightarrow> 'm DataObjectHeader \<Rightarrow> error + (Reader \<times> 'm DataObjectHeader))
     \<Rightarrow> Reader \<Rightarrow> int \<Rightarrow> error + ('m DataObjectHeader \<times> Reader)" where
  "DataObjectHeader_new message version2 reader off =
    (let pos = position reader in
     bind_err (seek off reader) (\<lambda>r0.
     bind_err (match ''OHDR'' r0) (\<lambda>(matched, r1).
     bind_err (byte r1) (\<lambda>(version, r2).
     bind_err
       (if version = 1 then
          bind_err (skip 1 r2) (\<lambda>r3.
          bind_err (uint16 r3) (\<lambda>(count, r4).
          bind_err (uint32 r4) (\<lambda>(referenceCount, r5).
          bind_err (uint32 r5) (\<lambda>(objectHeaderSize, r6).
          let r7 = align 8 r6 in
          bind_err
            (message_loop message (nat count)
               (r7, new_header, Some (position r7 + objectHeaderSize)))
            (\<lambda>(r8, this, end). Inr (r8, this))))))
        else if version = 2 then version2 r2 new_header
        else Inl (HDF5_Error ''Unsupported data object header version''))
       (\<lambda>(r9, this). bind_err (seek pos r9) (\<lambda>r10. Inr (this, r10)))))))"

text \<open>
  The constructor as \<open>File.read\<close> calls it, with whatever \<open>reader.offset()\<close> gave:
  \<open>at_address\<close> at a number, \<open>at_undefined\<close> at \<open>undefined\<close>.
\<close>

definition object_header_at ::
  "(Reader \<Rightarrow> error + ('h \<times> Reader)) \<Rightarrow> (Reader \<Rightarrow> int \<Rightarrow> error + ('h \<times> Reader))
     \<Rightarrow> Reader \<Rightarrow> int option \<Rightarrow> error + ('h \<times> Reader)" where
  "object_header_at at_undefined at_address reader off =
    (case off of None \<Rightarrow> at_undefined reader | Some a \<Rightarrow> at_address reader a)"

text \<open>
  A file of 40 bytes: the signature, a version 2 superblock with 4-byte offsets and
  lengths that declares the base address \<open>0x200\<close>, no superblock extension, the end of
  file at 40 and the root object header at 28; and there a version 1 object header with
  no message.
\<close>

definition based_file :: "byte list" where
  "based_file = signature @ [2, 4, 4, 0] @
     [0, 2, 0, 0] @ [255, 255, 255, 255] @ [40, 0, 0, 0] @ [28, 0, 0, 0] @
     [1, 0, 0, 0, 1, 0, 0, 0, 0, 0, 0, 0]"

section \<open>Dataspace decoding\<close>

record Dataspace =
  ds_dimensions :: nat
  ds_sizes :: "int option list"

text \<open>
  The values that reach the parameter \<open>globalHeap\<close>: the \<open>hdf5.GlobalHeap\<close>, or a value
  without a \<open>get\<close> method (an array or a number).
\<close>

datatype heap_arg = Heap GlobalHeap | NotHeap

text \<open>
  The values that reach the parameter \<open>shape\<close>: the array \<open>_sizes\<close> (each size a number
  or \<open>undefined\<close>), or a number, \<open>None\<close> being \<open>NaN\<close>.
\<close>

datatype shape_arg = Sizes "int option list" | Num "int option"

text \<open>
  \<open>Datatype.decode(data, globalHeap)\<close>.  For class 9 the element must be the object
  \<open>{length, globalHeapID}\<close> built by \<open>read\<close>; on any other value the property chain
  \<open>data.globalHeapID.address\<close> raises a \<open>TypeError\<close>.
\<close>

definition Datatype_decode :: "Datatype \<Rightarrow> jsval \<Rightarrow> heap_arg \<Rightarrow> error + jsval" where
  "Datatype_decode datatype data globalHeap =
    (if dt_class datatype \<in> {0, 1, 3, 5, 8} then Inr data
     else if dt_class datatype = 9 then
       (case globalHeap of
          NotHeap \<Rightarrow> Inl (Type_Error ''globalHeap.get is not a function'')
        | Heap heap \<Rightarrow>
            (case data of
               JVarLen len globalHeapID \<Rightarrow>
                 bind_err (heap (address globalHeapID)) (\<lambda>collection.
                   case collection (objectIndex globalHeapID) of
                     None \<Rightarrow> Inr JNull
                   | Some globalHeapObject \<Rightarrow>
                       (let characterSet = drop_bit 8 (dt_flags datatype) AND 0x0f in
                        if characterSet = 0 then
                          bind_err (ascii_text globalHeapObject) (\<lambda>s. Inr (JString s))
                        else if characterSet = 1 then
                          bind_err (utf8_text globalHeapObject) (\<lambda>s. Inr (JString s))
                        else Inl (HDF5_Error ''Unsupported character encoding.'')))
             | _ \<Rightarrow> Inl (Type_Error ''Cannot read properties of undefined'')))
     else Inl (HDF5_Error ''Unsupported datatype class''))"

text \<open>
  \<open>data[i]\<close> and \<open>data[i] = v\<close>.  Above the leaves \<open>_readArray\<close> builds arrays only.  On
  an array a read past the end yields \<open>undefined\<close> and a write past the end extends the
  array.  \<open>undefined\<close> and \<open>null\<close> cannot be indexed; a leaf read yields \<open>undefined\<close>
  (a character of a string, a byte of a byte array) and a leaf write is refused, as the
  module's strict mode does for primitive values.
\<close>

definition js_get :: "jsval \<Rightarrow> nat \<Rightarrow> error + jsval" where
  "js_get data i =
    (case data of
       JArray xs \<Rightarrow> Inr (if i < length xs then xs ! i else JUndefined)
     | JUndefined \<Rightarrow> Inl (Type_Error ''Cannot read properties of undefined'')
     | JNull \<Rightarrow> Inl (Type_Error ''Cannot read properties of null'')
     | JString s \<Rightarrow> Inr (if i < length s then JString [s ! i] else JUndefined)
     | JBytes bs \<Rightarrow> Inr (if i < length bs then JNumber (uint (bs ! i)) else JUndefined)
     | _ \<Rightarrow> Inr JUndefined)"

definition js_set :: "jsval \<Rightarrow> nat \<Rightarrow> jsval \<Rightarrow> error + jsval" where
  "js_set data i v =
    (case data of
       JArray xs \<Rightarrow>
         Inr (JArray (if i < length xs then xs[i := v]
                      else xs @ replicate (i - length xs) JUndefined @ [v]))
     | _ \<Rightarrow> Inl (Type_Error ''Cannot set properties''))"

text \<open>\<open>shape[dimension]\<close>, \<open>shape.length\<close> and \<open>dimension + 1\<close> on the values above.\<close>

definition shape_index :: "shape_arg \<Rightarrow> int option \<Rightarrow> int option" where
  "shape_index shape dimension =
    (case (shape, dimension) of
       (Sizes xs, Some d) \<Rightarrow> (if 0 \<le> d \<and> nat d < length xs then xs ! nat d else None)
     | _ \<Rightarrow> None)"

definition shape_length :: "shape_arg \<Rightarrow> int option" where
  "shape_length shape = (case shape of Sizes xs \<Rightarrow> Some (int (length xs)) | Num n \<Rightarrow> None)"

definition plus1 :: "int option \<Rightarrow> shape_arg" where
  "plus1 dimension = Num (map_option (\<lambda>d. d + 1) dimension)"

text \<open>\<open>dimension === shape.length - 1\<close>: false as soon as either side is not a number.\<close>

definition is_last_dimension :: "int option \<Rightarrow> shape_arg \<Rightarrow> bool" where
  "is_last_dimension dimension shape =
    (case (dimension, shape_length shape) of
       (Some d, Some l) \<Rightarrow> d = l - 1
     | _ \<Rightarrow> False)"

text \<open>\<open>i < size\<close> for a loop counter: false when \<open>size\<close> is \<open>undefined\<close>.\<close>

definition below :: "nat \<Rightarrow> int option \<Rightarrow> bool" where
  "below i sz = (case sz of Some n \<Rightarrow> int i < n | None \<Rightarrow> False)"

text \<open>A value passed in the position of \<open>globalHeap\<close> that is a shape: not a heap.\<close>

definition shape_as_heap :: "shape_arg \<Rightarrow> heap_arg" where
  "shape_as_heap shape = NotHeap"

text \<open>The loop of the last dimension: \<open>data[i] = datatype.decode(data[i], globalHeap)\<close>.\<close>

function decodeLeaves ::
  "Datatype \<Rightarrow> heap_arg \<Rightarrow> int option \<Rightarrow> nat \<Rightarrow> jsval \<Rightarrow> error + jsval" where
  "decodeLeaves datatype globalHeap sz i data =
    (if below i sz then
       (case js_get data i of
          Inl e \<Rightarrow> Inl e
        | Inr x \<Rightarrow>
            (case Datatype_decode datatype x globalHeap of
               Inl e \<Rightarrow> Inl e
             | Inr v \<Rightarrow>
                 (case js_set data i v of
                    Inl e \<Rightarrow> Inl e
                  | Inr data' \<Rightarrow> decodeLeaves datatype globalHeap sz (i + 1) data')))
     else Inr data)"
  by pat_completeness auto
termination
  by (relation "measure (\<lambda>(datatype, globalHeap, sz, i, data).
        case sz of Some n \<Rightarrow> nat n - i | None \<Rightarrow> 0)")
     (auto simp: below_def split: option.splits)

text \<open>
  \<open>Dataspace._decodeArray(datatype, data, globalHeap, shape, dimension)\<close> and the loop of
  its \<open>else\<close> branch.  The recursive call is written
  \<open>this._decodeArray(datatype, data[j], shape, dimension + 1)\<close>: four arguments for five
  parameters, so the callee receives \<open>shape\<close> as its \<open>globalHeap\<close>, the number
  \<open>dimension + 1\<close> as its \<open>shape\<close>, and \<open>undefined\<close> as its \<open>dimension\<close>.
\<close>

function decodeArray ::
    "Datatype \<Rightarrow> jsval \<Rightarrow> heap_arg \<Rightarrow> shape_arg \<Rightarrow> int option \<Rightarrow> error + jsval"
  and decodeRows ::
    "Datatype \<Rightarrow> shape_arg \<Rightarrow> int option \<Rightarrow> int option \<Rightarrow> nat \<Rightarrow> jsval \<Rightarrow> error + jsval"
  where
  "decodeArray datatype data globalHeap shape dimension =
    (let sz = shape_index shape dimension in
     if is_last_dimension dimension shape
     then decodeLeaves datatype globalHeap sz 0 data
     else decodeRows datatype shape dimension sz 0 data)"
| "decodeRows datatype shape dimension sz j data =
    (if below j sz then
       (case js_get data j of
          Inl e \<Rightarrow> Inl e
        | Inr x \<Rightarrow>
            (case decodeArray datatype x (shape_as_heap shape) (plus1 dimension) None of
               Inl e \<Rightarrow> Inl e
             | Inr v \<Rightarrow>
                 (case js_set data j v of
                    Inl e \<Rightarrow> Inl e
                  | Inr data' \<Rightarrow> decodeRows datatype shape dimension sz (j + 1) data')))
     else Inr data)"
  by pat_completeness auto
termination
  by (relation "inv_image (less_than <*lex*> less_than)
        (\<lambda>x. case x of
           Inl (datatype, data, globalHeap, shape, dimension) \<Rightarrow>
             (case shape of Sizes xs \<Rightarrow> 3 | Num n \<Rightarrow> 1, 0)
         | Inr (datatype, shape, dimension, sz, j, data) \<Rightarrow>
             (case sz of None \<Rightarrow> 0 | Some n \<Rightarrow> 2, case sz of None \<Rightarrow> 0 | Some n \<Rightarrow> nat n - j))")
     (auto simp: below_def plus1_def shape_index_def split: option.splits shape_arg.splits)

declare decodeLeaves.simps [simp del] decodeArray.simps [simp del] decodeRows.simps [simp del]

definition Dataspace_decode ::
  "Dataspace \<Rightarrow> Datatype \<Rightarrow> jsval \<Rightarrow> heap_arg \<Rightarrow> error + jsval" where
  "Dataspace_decode this datatype data globalHeap =
    (if ds_dimensions this = 0 then Datatype_decode datatype data globalHeap
     else decodeArray datatype data globalHeap (Sizes (ds_sizes this)) (Some 0))"

text \<open>
  The last step of \<open>Variable.value\<close>, on the array read from the data:
  \<open>this._dataspace.decode(this._datatype, array, array, this._globalHeap)\<close>.  The
  parameter \<open>globalHeap\<close> of \<open>decode\<close> is its third, so it receives the array.
\<close>

definition Variable_value_decode ::
  "Dataspace \<Rightarrow> Datatype \<Rightarrow> GlobalHeap \<Rightarrow> jsval \<Rightarrow> error + jsval" where
  "Variable_value_decode dataspace datatype globalHeap array =
    Dataspace_decode dataspace datatype array NotHeap"

text \<open>
  A variable-length string datatype (class 9, type 1, UTF-8), a heap holding the text
  \<open>hello\<close> as object 1 of the collection at address 512, and a reference to it.
\<close>

definition vlen_string :: Datatype where
  "vlen_string = Datatype 9 0x101 16 None [] []"

definition hello_heap :: GlobalHeap where
  "hello_heap = (\<lambda>a. Inr (\<lambda>i. if a = Some 512 \<and> i = 1
      then Some \<lparr>ascii_text = Inr ''hello'', utf8_text = Inr ''hello''\<rparr> else None))"

definition hello_ref :: jsval where
  "hello_ref = JVarLen 5 \<lparr>address = Some 512, objectIndex = 1\<rparr>"

section \<open>The LZF filter\<close>

text \<open>
  \<open>Filter._lzf\<close>.  A control byte \<open>c\<close> is a number below 256, so \<open>c >> 5\<close> is
  \<open>c div 32\<close> and \<open>(c & 0x1f) << 8\<close> is \<open>(c mod 32) * 256\<close>.
\<close>

definition invalid_lzf :: error where
  "invalid_lzf = Plain_Error ''Invalid LZF compressed data.''"

definition lzf_ref :: "nat \<Rightarrow> nat \<Rightarrow> nat \<Rightarrow> int" where
  "lzf_ref out c b = int out - int ((c mod 32) * 256) - 1 - int b"

text \<open>The first loop: it computes the output size \<open>o\<close> and throws on malformed input.\<close>

function lzf_size :: "byte list \<Rightarrow> nat \<Rightarrow> nat \<Rightarrow> error + nat" where
  "lzf_size input i out =
    (if i < length input then
       (let c = unat (input ! i); i1 = i + 1 in
        if c < 32 then
          (let c' = c + 1; i2 = i1 + c'; out' = out + c' in
           if i2 > length input then Inl invalid_lzf
           else lzf_size input i2 out')
        else
          (let len0 = c div 32 in
           if i1 \<ge> length input then Inl invalid_lzf
           else
             (let ext = (len0 = 7);
                  len = (if ext then len0 + unat (input ! i1) else len0);
                  i2 = (if ext then i1 + 1 else i1) in
              if ext \<and> i2 \<ge> length input then Inl invalid_lzf
              else
                (let ref = lzf_ref out c (unat (input ! i2)); i3 = i2 + 1 in
                 if ref < 0 then Inl invalid_lzf
                 else lzf_size input i3 (out + len + 2)))))
     else Inr out)"
  by pat_completeness auto
termination
  by (relation "measure (\<lambda>(input, i, out). length input - i)") (auto simp: Let_def)

text \<open>
  Typed arrays: \<open>input[i]\<close> past the end is \<open>undefined\<close> (\<open>None\<close>);
  \<open>input.subarray(b, e)\<close> is clamped to the array; \<open>output.set(source, o)\<close> throws a
  \<open>RangeError\<close> when the source does not fit; \<open>output[o] = v\<close> past the end does nothing,
  and a value read from outside the array is stored as 0.
\<close>

definition input_at :: "byte list \<Rightarrow> nat \<Rightarrow> nat option" where
  "input_at input i = (if i < length input then Some (unat (input ! i)) else None)"

definition subarray :: "byte list \<Rightarrow> nat \<Rightarrow> nat \<Rightarrow> byte list" where
  "subarray input b e = drop b (take e input)"

definition typed_array_set :: "byte list \<Rightarrow> byte list \<Rightarrow> nat \<Rightarrow> error + byte list" where
  "typed_array_set output source out =
    (if out + length source > length output then Inl (Range_Error ''offset is out of bounds'')
     else Inr (take out output @ source @ drop (out + length source) output))"

definition typed_read :: "byte list \<Rightarrow> int option \<Rightarrow> byte" where
  "typed_read output ref =
    (case ref of
       Some r \<Rightarrow> (if 0 \<le> r \<and> nat r < length output then output ! nat r else 0)
     | None \<Rightarrow> 0)"

definition typed_write :: "byte list \<Rightarrow> nat \<Rightarrow> byte \<Rightarrow> byte list" where
  "typed_write output out v = (if out < length output then output[out := v] else output)"

text \<open>
  \<open>do { output[o++] = output[ref++]; } while (--length)\<close>, run \<open>n\<close> times; \<open>ref\<close> is
  \<open>None\<close> when it is \<open>NaN\<close>.  The result is the array and the cursor \<open>o\<close>.
\<close>

fun copy_run :: "nat \<Rightarrow> int option \<Rightarrow> nat \<Rightarrow> byte list \<Rightarrow> byte list \<times> nat" where
  "copy_run 0 ref out output = (output, out)"
| "copy_run (Suc n) ref out output =
    copy_run n (map_option (\<lambda>r. r + 1) ref) (out + 1)
      (typed_write output out (typed_read output ref))"

text \<open>
  The second loop, on the array allocated from the first loop's size.  Its result is the
  array together with the final cursor \<open>o\<close>: every write lands below that cursor.  A
  length that is \<open>NaN\<close> (a byte read past the input) ends the \<open>do while\<close> after one
  round; a length that is a number is at least 3.
\<close>

function lzf_copy :: "byte list \<Rightarrow> nat \<Rightarrow> nat \<Rightarrow> byte list \<Rightarrow> error + (byte list \<times> nat)" where
  "lzf_copy input i out output =
    (if i < length input then
       (let c = unat (input ! i); i1 = i + 1 in
        if c < 32 then
          (let c' = c + 1 in
           case typed_array_set output (subarray input i1 (i1 + c')) out of
             Inl e \<Rightarrow> Inl e
           | Inr output' \<Rightarrow> lzf_copy input (i1 + c') (out + c') output')
        else
          (let len0 = c div 32;
               ext = (len0 = 7);
               len = (if ext then map_option (\<lambda>b. len0 + b) (input_at input i1) else Some len0);
               i2 = (if ext then i1 + 1 else i1);
               len' = map_option (\<lambda>l. l + 2) len;
               ref = map_option (lzf_ref out c) (input_at input i2);
               i3 = i2 + 1;
               run = copy_run (case len' of Some l \<Rightarrow> l | None \<Rightarrow> 1) ref out output
           in lzf_copy input i3 (snd run) (fst run)))
     else Inr (output, out))"
  by pat_completeness auto
termination
  by (relation "measure (\<lambda>(input, i, out, output). length input - i)") (auto simp: Let_def)

declare lzf_size.simps [simp del] lzf_copy.simps [simp del]

definition lzf :: "byte list \<Rightarrow> error + byte list" where
  "lzf input =
    bind_err (lzf_size input 0 0) (\<lambda>n.
    bind_err (lzf_copy input 0 0 (replicate n 0)) (\<lambda>(output, out). Inr output))"

text \<open>
  The decoder in the words of the format description, on the remaining input and the
  output produced so far, with no array to overrun: a literal run appends the next
  \<open>c + 1\<close> input bytes; a back-reference appends \<open>length\<close> bytes one at a time, each
  copied from \<open>offset\<close> bytes before the end.  \<open>None\<close> is the decode error: a truncated
  run, a truncated reference, or a reference to before the start of the output.
\<close>

fun copy_back :: "nat \<Rightarrow> nat \<Rightarrow> byte list \<Rightarrow> byte list" where
  "copy_back 0 off output = output"
| "copy_back (Suc n) off output = copy_back n off (output @ [output ! (length output - off)])"

definition back_offset :: "byte \<Rightarrow> byte \<Rightarrow> nat" where
  "back_offset c lo = (unat c mod 32) * 256 + unat lo + 1"

function lzf_decode_spec :: "byte list \<Rightarrow> byte list \<Rightarrow> byte list option" where
  "lzf_decode_spec [] output = Some output"
| "lzf_decode_spec (c # rest) output =
    (if unat c < 32 then
       (if length rest < unat c + 1 then None
        else lzf_decode_spec (drop (unat c + 1) rest) (output @ take (unat c + 1) rest))
     else if unat c div 32 = 7 then
       (case rest of
          ext # lo # rest' \<Rightarrow>
            if back_offset c lo > length output then None
            else lzf_decode_spec rest' (copy_back (7 + unat ext + 2) (back_offset c lo) output)
        | _ \<Rightarrow> None)
     else
       (case rest of
          lo # rest' \<Rightarrow>
            if back_offset c lo > length output then None
            else lzf_decode_spec rest' (copy_back (unat c div 32 + 2) (back_offset c lo) output)
        | _ \<Rightarrow> None))"
  by pat_completeness auto
termination
  by (relation "measure (\<lambda>(input, output). length input)") auto

section \<open>Chunked datasets\<close>









text \<open>
  The numbers of the scatter loop are integers; \<open>None\<close> stands for \<open>undefined\<close> and for
  \<open>NaN\<close>, which behave alike here: a comparison with either is false, arithmetic on
  either gives \<open>NaN\<close>.  An array element outside the array reads as \<open>undefined\<close>, and
  a store beyond the end extends the array, leaving holes.  Arithmetic is exact: the
  rounding of doubles beyond \<open>2^53\<close> is not modelled.
\<close>

type_synonym number = "int option"

definition js_ge :: "number \<Rightarrow> number \<Rightarrow> bool" where
  "js_ge a b = (case a of None \<Rightarrow> False | Some x \<Rightarrow> (case b of None \<Rightarrow> False | Some y \<Rightarrow> x \<ge> y))"

definition js_times :: "number \<Rightarrow> number \<Rightarrow> number" where
  "js_times a b = (case a of None \<Rightarrow> None | Some x \<Rightarrow> (case b of None \<Rightarrow> None | Some y \<Rightarrow> Some (x * y)))"

definition js_plus :: "number \<Rightarrow> number \<Rightarrow> number" where
  "js_plus a b = (case a of None \<Rightarrow> None | Some x \<Rightarrow> (case b of None \<Rightarrow> None | Some y \<Rightarrow> Some (x + y)))"



definition numbers :: "nat list \<Rightarrow> number list" where
  "numbers ns = map (\<lambda>n. Some (int n)) ns"














subsection \<open>The loops on natural numbers\<close>

text \<open>
  When every size and offset is a natural number and no array is read outside its bounds,
  the loops above never meet \<open>undefined\<close>.  These are the same loops on lists of
  natural numbers; the proofs go through them.
\<close>

definition chunk_byte :: "byte list \<Rightarrow> nat \<Rightarrow> byte" where
  "chunk_byte chunk i = (if i < length chunk then chunk ! i else 0)"

fun strides_loop_nat :: "nat list \<Rightarrow> nat \<Rightarrow> nat \<Rightarrow> nat list \<Rightarrow> nat list" where
  "strides_loop_nat data_shape 0 data_stride data_strides = data_strides"
| "strides_loop_nat data_shape (Suc i) data_stride data_strides =
    strides_loop_nat data_shape i (data_stride * data_shape ! i) (data_strides[i := data_stride])"

fun carry_nat :: "nat list \<Rightarrow> nat list \<Rightarrow> nat \<Rightarrow> nat list \<times> nat list \<Rightarrow> nat list \<times> nat list" where
  "carry_nat chunk_shape chunk_offset 0 (chunk_pos, data_pos) = (chunk_pos, data_pos)"
| "carry_nat chunk_shape chunk_offset (Suc i) (chunk_pos, data_pos) =
    (if chunk_pos ! i \<ge> chunk_shape ! i then
       (let chunk_pos1 = chunk_pos[i := 0];
            data_pos1 = data_pos[i := chunk_offset ! i]
        in carry_nat chunk_shape chunk_offset i
             (if i > 0
              then (chunk_pos1[i - 1 := chunk_pos1 ! (i - 1) + 1],
                    data_pos1[i - 1 := data_pos1 ! (i - 1) + 1])
              else (chunk_pos1, data_pos1)))
     else (chunk_pos, data_pos))"

function find_index_nat ::
  "nat list \<Rightarrow> nat list \<Rightarrow> nat list \<Rightarrow> nat \<Rightarrow> nat \<Rightarrow> nat \<Rightarrow> nat option" where
  "find_index_nat data_shape data_strides data_pos len i index =
    (if i < len then
       (let position = data_pos ! i in
        if position \<ge> data_shape ! i then None
        else find_index_nat data_shape data_strides data_pos len (i + 1)
               (index + position * data_strides ! i))
     else Some index)"
  by pat_completeness auto
termination
  by (relation "measure (\<lambda>(data_shape, data_strides, data_pos, len, i, index). len - i)") auto

fun copy_item_nat :: "byte list \<Rightarrow> nat \<Rightarrow> nat \<Rightarrow> nat \<Rightarrow> byte list \<Rightarrow> byte list" where
  "copy_item_nat chunk 0 chunk_offset target_offset data = data"
| "copy_item_nat chunk (Suc n) chunk_offset target_offset data =
    copy_item_nat chunk n (chunk_offset + 1) (target_offset + 1)
      (typed_write data target_offset (chunk_byte chunk chunk_offset))"

definition increment_nat :: "nat list \<Rightarrow> int \<Rightarrow> nat list" where
  "increment_nat xs max_dim =
    (if max_dim < 0 then xs else xs[nat max_dim := xs ! nat max_dim + 1])"

function scatter_chunk_nat ::
  "nat \<Rightarrow> nat list \<Rightarrow> nat list \<Rightarrow> nat list \<Rightarrow> nat \<Rightarrow> byte list \<Rightarrow> nat list \<Rightarrow> nat
     \<Rightarrow> nat \<Rightarrow> nat list \<times> nat list \<times> byte list \<Rightarrow> byte list" where
  "scatter_chunk_nat item_size chunk_shape data_shape data_strides chunk_size chunk chunk_offset len
     chunk_index (chunk_pos, data_pos, data) =
    (if chunk_index < chunk_size then
       (let max_dim = int (length data_shape) - 1;
            (chunk_pos1, data_pos1) =
               carry_nat chunk_shape chunk_offset (nat (max_dim + 1)) (chunk_pos, data_pos);
            data1 =
              (case find_index_nat data_shape data_strides data_pos1 len 0 0 of
                 Some index \<Rightarrow>
                   copy_item_nat chunk item_size (chunk_index * item_size) (index * item_size) data
               | None \<Rightarrow> data)
        in scatter_chunk_nat item_size chunk_shape data_shape data_strides chunk_size chunk
             chunk_offset len (chunk_index + 1)
             (increment_nat chunk_pos1 max_dim, increment_nat data_pos1 max_dim, data1))
     else data)"
  by pat_completeness auto
termination
  by (relation "measure (\<lambda>(item_size, chunk_shape, data_shape, data_strides, chunk_size, chunk,
        chunk_offset, len, chunk_index, state). chunk_size - chunk_index)") auto


declare find_index_nat.simps [simp del] scatter_chunk_nat.simps [simp del]

subsection \<open>The oracle\<close>


fun digits :: "nat \<Rightarrow> nat list \<Rightarrow> nat list" where
  "digits k [] = []"
| "digits k (s # ss) = k mod s # digits (k div s) ss"


definition oracle_strides :: "nat list \<Rightarrow> nat list" where
  "oracle_strides shape = map (\<lambda>i. prod_list (drop (Suc i) shape)) [0..<length shape]"










text \<open>
  The odometer on positions written least significant digit first: \<open>inc_head\<close> advances
  the fastest digit without carrying, \<open>settle\<close> carries a digit that has reached its
  radix into the next one.
\<close>

fun inc_head :: "nat list \<Rightarrow> nat list" where
  "inc_head [] = []"
| "inc_head (x # xs) = Suc x # xs"

fun settle :: "nat list \<Rightarrow> nat list \<Rightarrow> nat list" where
  "settle (s # ss) (x # xs) = (if x \<ge> s then 0 # settle ss (inc_head xs) else x # xs)"
| "settle ss xs = xs"























section \<open>Fixed-point type names\<close>

text \<open>
  C2. The claim: a class 0 datatype with \<open>flags & 0xfff6 = 0\<close> and a size of 1, 2, 4
  or 8 is named unsigned exactly when \<open>flags & 0x08 = 0\<close>.  The getter tests
  \<open>flags && 0x08\<close> instead: for the big-endian unsigned byte (flags 1, size 1) bit 3 is
  clear, the flags pass the \<open>0xfff6\<close> mask, and the getter answers \<open>int8\<close>.
\<close>

theorem Datatype_type_big_endian_unsigned:
  "(1 :: 32 word) AND 0xfff6 = 0 \<and> (1 :: 32 word) AND 0x08 = 0
   \<and> Datatype_type (Datatype 0 1 1 None [] []) = Inr ''int8''"
  by (simp add: js_logical_and_def)

text \<open>
  More generally, under the \<open>0xfff6\<close> mask the getter names the type unsigned only
  when the flags are zero altogether.
\<close>

lemma Datatype_type_fixed_point:
  assumes "flags AND 0xfff6 = 0"
  shows "Datatype_type (Datatype 0 flags 1 b ns vs) = Inr (if flags = 0 then ''uint8'' else ''int8'')"
    and "Datatype_type (Datatype 0 flags 2 b ns vs) = Inr (if flags = 0 then ''uint16'' else ''int16'')"
    and "Datatype_type (Datatype 0 flags 4 b ns vs) = Inr (if flags = 0 then ''uint32'' else ''int32'')"
    and "Datatype_type (Datatype 0 flags 8 b ns vs) = Inr (if flags = 0 then ''uint64'' else ''int64'')"
  using assms by (simp_all add: js_logical_and_def)

text \<open>The getter \<open>littleEndian\<close> answers true on every datatype.\<close>

lemma littleEndian_always: "littleEndian d"
  by (simp add: littleEndian_def Datatype_flags_def ToInt32_def)

text \<open>
  C3. The claim: for classes 0 and 1 \<open>littleEndian\<close> is true exactly when bit 0 of the
  parsed flags is clear.  On a big-endian 32-bit integer (class 0, flags 1, size 4) bit 0
  is set and the getter still answers true.
\<close>

theorem littleEndian_big_endian_flags:
  "dt_flags (Datatype 0 1 4 None [] []) AND 0x01 \<noteq> 0
   \<and> littleEndian (Datatype 0 1 4 None [] [])"
  by (simp add: littleEndian_def Datatype_flags_def ToInt32_def)


section \<open>Reading the superblock\<close>

lemmas reader_defs = signature_def bind_err_def skip_def Reader_open_def
  byte_def uint16_def uint32_def getUint_def take_bytes_def view_bytes_def initialize_def
  offset_def MAX_SAFE_INTEGER_def SymbolTableEntry_new_def Group_new_def seek_def position_def

lemma bind_err_InrE:
  assumes "bind_err m f = Inr y"
  obtains x where "f x = Inr y"
  using assms by (cases m) (auto simp: bind_err_def)

lemma bind_err_not_Inr: "(\<And>x. f x \<noteq> Inr y) \<Longrightarrow> bind_err m f \<noteq> Inr y"
  by (cases m) (auto simp: bind_err_def)

lemma case_prod_not_Inr: "(\<And>a b. f a b \<noteq> Inr y) \<Longrightarrow> case_prod f x \<noteq> Inr y"
  by (cases x) auto

lemma bind_err_raise_not_Inr: "bind_err (bind_err m (\<lambda>(a, b). Inl e)) f \<noteq> Inr y"
  by (cases m) (auto simp: bind_err_def)

lemma skip_signature:
  "skip 8 (Reader_open (signature @ v # rest))
   = Inr \<lparr>buffer = signature @ v # rest, r_offset = 0, r_position = 8,
          offsetSize = None, lengthSize = None\<rparr>"
  by (simp add: skip_def Reader_open_def signature_def)

lemma byte_signature:
  "byte \<lparr>buffer = signature @ v # rest, r_offset = 0, r_position = 8,
         offsetSize = None, lengthSize = None\<rparr>
   = Inr (uint v, \<lparr>buffer = signature @ v # rest, r_offset = 0, r_position = 9,
                   offsetSize = None, lengthSize = None\<rparr>)"
  by (simp add: byte_def getUint_def take_bytes_def skip_def bind_err_def view_bytes_def
      signature_def)

text \<open>A version 0 superblock with base address 0 is read, and its root group is built.\<close>

lemma File_read_superblock_v0:
  "File_read H superblock_v0 =
   Inr \<lparr>superblockVersion = 0, baseAddress = Some 0, endOfFileAddress = Some 96,
        rootGroup = \<lparr>g_entry = Some \<lparr>linkNameOffset = Some 0, objectHeaderAddress = Some 96,
                                      treeAddress = None, heapAddress = None\<rparr>,
                     g_dataObjectHeader = None, g_name = [], g_path = ''/''\<rparr>\<rparr>"
  by (simp add: superblock_v0_def File_read_def reader_defs)

text \<open>Versions 0 and 1 never yield a file with a base address other than zero.\<close>

lemma File_read_legacy_base_address:
  "File_read H data = Inr f \<Longrightarrow> superblockVersion f \<in> {0, 1} \<Longrightarrow> baseAddress f = Some 0"
  unfolding File_read_def
  by ((erule bind_err_InrE | clarsimp split: if_splits)+)

text \<open>Every version byte other than 0, 1, 2 and 3 is refused with the \<open>hdf5.Error\<close>.\<close>

lemma File_read_unsupported_version:
  "uint v \<notin> {0, 1, 2, 3} \<Longrightarrow>
   File_read H (signature @ v # rest) = Inl (HDF5_Error ''Unsupported Superblock version'')"
  unfolding File_read_def
  by (simp add: skip_signature byte_signature bind_err_def [of "Inr _"])

text \<open>
  C6. The claim: for each accepted superblock version, \<open>File.read\<close> fails when the base
  address is not zero, and a root group comes only from a file whose base address is zero.
  The version 0/1 branch makes that check (\<open>File_read_legacy_base_address\<close>); the
  version 2/3 branch stores the base address and goes on to the root object header.  The
  file \<open>based_file\<close> passes \<open>File.open\<close>, declares the base address \<open>0x200\<close> in a
  version 2 superblock, and is read to the end: its root object header, a version 1
  header with no message, parses whatever the message loop body and the version 2 block
  are, and the root group is returned.
\<close>

theorem File_read_v2_nonzero_base:
  "File_open based_file = Some based_file \<and>
   File_read (object_header_at at_undefined (DataObjectHeader_new message version2)) based_file =
   Inr \<lparr>superblockVersion = 2, baseAddress = Some 512, endOfFileAddress = Some 40,
        rootGroup = \<lparr>g_entry = None, g_dataObjectHeader = Some new_header, g_name = [],
                     g_path = ''/''\<rparr>\<rparr>"
  by (simp add: based_file_def File_open_def File_read_def reader_defs object_header_at_def
      DataObjectHeader_new_def match_def align_def)

text \<open>
  C7. The claim: \<open>File.read\<close> succeeds on well-formed files of versions 0 to 3, reading
  for version 1 the indexed-storage K and two reserved bytes, and refuses other versions
  with the unsupported-version error.  The last part holds
  (\<open>File_read_unsupported_version\<close>), and so does version 0
  (\<open>File_read_superblock_v0\<close>).  For version 1 the two reserved bytes are skipped by
  \<open>this.skip(2)\<close> on the \<open>File\<close> object, which has no such method: a well-formed
  version 1 superblock ends in a \<open>TypeError\<close>, and no input whose version byte is 1 is
  ever read successfully.
\<close>

theorem File_read_version_1_fails:
  "File_open superblock_v1 = Some superblock_v1 \<and>
   File_read H superblock_v1 = Inl (Type_Error ''this.skip is not a function'') \<and>
   (\<forall>rest. \<exists>e. File_read H (signature @ 1 # rest) = Inl e)"
proof -
  have "File_open superblock_v1 = Some superblock_v1"
    by (simp add: File_open_def superblock_v1_def signature_def)
  moreover have "File_read H superblock_v1 = Inl (Type_Error ''this.skip is not a function'')"
    by (simp add: superblock_v1_def File_read_def reader_defs)
  moreover have "\<exists>e. File_read H (signature @ 1 # rest) = Inl e" for rest
  proof -
    have "File_read H (signature @ 1 # rest) \<noteq> Inr f" for f
      unfolding File_read_def
      apply (simp add: skip_signature byte_signature bind_err_def [of "Inr _"])
      apply (rule bind_err_raise_not_Inr | rule bind_err_not_Inr | rule case_prod_not_Inr)+
      done
    then show ?thesis
      by (cases "File_read H (signature @ 1 # rest)") auto
  qed
  ultimately show ?thesis by blast
qed

section \<open>Group paths\<close>

lemma Map_set_subset: "set (Map_set m k v) \<subseteq> insert (k, v) (set m)"
  by (induction m) (auto split: if_splits)

lemma fold_Map_set_mem:
  "kv \<in> set (fold (\<lambda>l m. Map_set m (f l) (h l)) links m0)
   \<Longrightarrow> kv \<in> set m0 \<or> (\<exists>l \<in> set links. kv = (f l, h l))"
proof (induction links arbitrary: m0)
  case Nil
  then show ?case by simp
next
  case (Cons l links)
  from Cons.prems
  have "kv \<in> set (fold (\<lambda>l m. Map_set m (f l) (h l)) links (Map_set m0 (f l) (h l)))"
    by simp
  from Cons.IH [OF this] show ?case
    using Map_set_subset [of m0 "f l" "h l"] by auto
qed

lemma node_group_decodeGroups:
  "node_group (decodeGroups ob pp n) = Group_new (obj_entry ob) (obj_header ob) pp n"
  by (cases ob) (simp add: Let_def)

lemma decodeGroups_children:
  "\<forall>g \<in> set (subgroups (decodeGroups ob pp n)). \<forall>c \<in> set (node_groups g). child_path_ok g c"
proof (induction ob pp n rule: decodeGroups.induct)
  case (1 entry header links parentPath name)
  let ?grp = "Group_new entry header parentPath name"
  let ?cs = "fold (\<lambda>link groups.
      Map_set groups (fst link) (decodeGroups (snd link) (g_path ?grp) (fst link))) links []"
  have mem: "\<exists>l \<in> set links. c = (fst l, decodeGroups (snd l) (g_path ?grp) (fst l))"
    if "c \<in> set ?cs" for c
    using fold_Map_set_mem [of c fst "\<lambda>l. decodeGroups (snd l) (g_path ?grp) (fst l)" links "[]"]
      that by auto
  have top: "child_path_ok (GroupNode ?grp ?cs) c" if "c \<in> set ?cs" for c
  proof -
    from mem [OF that] obtain l where "l \<in> set links"
      and c: "c = (fst l, decodeGroups (snd l) (g_path ?grp) (fst l))" by blast
    show ?thesis
      by (simp add: c child_path_ok_def node_group_decodeGroups) (simp add: Group_new_def)
  qed
  have deep: "\<forall>c' \<in> set (node_groups g). child_path_ok g c'"
    if "c \<in> set ?cs" "g \<in> set (subgroups (snd c))" for c g
  proof -
    from mem [OF that(1)] obtain l where l: "l \<in> set links"
      and c: "c = (fst l, decodeGroups (snd l) (g_path ?grp) (fst l))" by blast
    from "1.IH" [OF refl l] that(2) c show ?thesis by simp
  qed
  show ?case
    using top deep by (auto simp: Let_def)
qed

lemma File_read_root_path:
  "File_read H data = Inr f \<Longrightarrow> g_path (rootGroup f) = ''/''"
  unfolding File_read_def
  by ((erule bind_err_InrE | clarsimp simp: Group_new_def split: if_splits)+)

text \<open>
  C9, as stated: the root group's path is empty.  \<open>File.read\<close> builds the root with
  parent path \<open>''\<close> and name \<open>''\<close>; the constructor joins them with a slash, so the root
  of the version 0 file above has the path \<open>/\<close>.
\<close>

theorem root_path_not_empty:
  "File_read (\<lambda>r a. Inr ((), r)) superblock_v0 =
   Inr \<lparr>superblockVersion = 0, baseAddress = Some 0, endOfFileAddress = Some 96,
        rootGroup = \<lparr>g_entry = Some \<lparr>linkNameOffset = Some 0, objectHeaderAddress = Some 96,
                                      treeAddress = None, heapAddress = None\<rparr>,
                     g_dataObjectHeader = None, g_name = [], g_path = ''/''\<rparr>\<rparr>
   \<and> ''/'' \<noteq> ([] :: string)"
  by (simp add: superblock_v0_def File_read_def reader_defs)

text \<open>
  C9, amended: the root group's path is \<open>/\<close>; every immediate child of the root has the
  path \<open>/\<close> followed by its name; every other group has its parent's path, a slash and
  its name, except under a parent whose own path is \<open>/\<close> (the root, or a child of the
  root with the empty name), where the name follows the single slash directly.
\<close>

theorem group_paths:
  "(File_read H data = Inr f \<longrightarrow> g_path (rootGroup f) = ''/'') \<and>
   node_group (decodeGroups root [] []) = Group_new (obj_entry root) (obj_header root) [] [] \<and>
   g_path (node_group (decodeGroups root [] [])) = ''/'' \<and>
   (\<forall>c \<in> set (node_groups (decodeGroups root [] [])).
      g_name (node_group (snd c)) = fst c \<and> g_path (node_group (snd c)) = ''/'' @ fst c) \<and>
   (\<forall>g \<in> set (subgroups (decodeGroups root [] [])). \<forall>c \<in> set (node_groups g).
      g_name (node_group (snd c)) = fst c \<and>
      g_path (node_group (snd c)) =
        (if g_path (node_group g) = ''/'' then ''/'' @ fst c
         else g_path (node_group g) @ ''/'' @ fst c))"
proof -
  let ?t = "decodeGroups root [] []"
  have root: "g_path (node_group ?t) = ''/''"
    by (simp add: node_group_decodeGroups Group_new_def)
  have all: "\<forall>g \<in> set (subgroups ?t). \<forall>c \<in> set (node_groups g). child_path_ok g c"
    by (rule decodeGroups_children)
  have "?t \<in> set (subgroups ?t)"
    by (cases ?t) simp
  with all root have "\<forall>c \<in> set (node_groups ?t).
      g_name (node_group (snd c)) = fst c \<and> g_path (node_group (snd c)) = ''/'' @ fst c"
    by (auto simp: child_path_ok_def)
  with root all show ?thesis
    using File_read_root_path [of H data f]
    by (simp add: node_group_decodeGroups child_path_ok_def)
qed

theorem group_paths_witness:
  "File_read (\<lambda>r a. Inr ((), r)) superblock_v0 = Inr v0_file \<and>
   g_path (rootGroup v0_file) = ''/'' \<and>
   (''parent'', parent_node) \<in> set (node_groups (decodeGroups example_tree [] [])) \<and>
   g_path (node_group parent_node) = ''/parent'' \<and>
   parent_node \<in> set (subgroups (decodeGroups example_tree [] [])) \<and>
   (''name'', name_node) \<in> set (node_groups parent_node) \<and>
   g_path (node_group name_node) = ''/parent/name''"
proof -
  let ?t = "decodeGroups example_tree [] []"
  have f: "File_read (\<lambda>r a. Inr ((), r)) superblock_v0 = Inr v0_file"
    by (simp add: File_read_superblock_v0 v0_file_def)
  have c1: "(''parent'', parent_node) \<in> set (node_groups ?t)"
    by (simp add: example_tree_def parent_node_def Group_new_def)
  have s1: "parent_node \<in> set (subgroups ?t)"
    by (simp add: example_tree_def parent_node_def Group_new_def)
  have c2: "(''name'', name_node) \<in> set (node_groups parent_node)"
    by (simp add: parent_node_def name_node_def Group_new_def)
  have p: "g_path (node_group parent_node) \<noteq> ''/''"
    by (simp add: parent_node_def Group_new_def)
  note t = group_paths [of "\<lambda>r a. Inr ((), r)" superblock_v0 v0_file example_tree]
  from t f have r: "g_path (rootGroup v0_file) = ''/''"
    by blast
  from t c1 have p1: "g_path (node_group parent_node) = ''/'' @ ''parent''"
    by fastforce
  from t s1 c2 p have "g_path (node_group name_node) = g_path (node_group parent_node) @ ''/'' @ ''name''"
    by fastforce
  with p1 have p2: "g_path (node_group name_node) = ''/parent/name''"
    by simp
  from f r c1 p1 s1 c2 p2 show ?thesis
    by simp
qed

section \<open>Group lookup\<close>









lemma SymbolTableEntry_new_heap_file:
  "SymbolTableEntry_new \<lparr>buffer = heap_file, r_offset = 0, r_position = 40,
       offsetSize = Some 4, lengthSize = Some 4\<rparr>
   = Inr (\<lparr>linkNameOffset = Some 0, objectHeaderAddress = Some 40,
           treeAddress = Some 136, heapAddress = Some 168\<rparr>, heap_reader)"
  by (simp add: heap_file_def heap_reader_def reader_defs)






section \<open>The message dispatcher restores the reader\<close>

lemma seek_skip_position:
  "seek pos r1 = Inr r2 \<Longrightarrow> skip msize r2 = Inr r3 \<Longrightarrow> position r3 = pos + msize"
  by (auto simp: seek_def skip_def position_def Let_def split: if_splits)

text \<open>
  C5, as stated: after every handled message, NIL included, the reader stands at the start
  of the payload plus the declared size.  A NIL message of declared size 8 returns at once
  and leaves the reader where it was.
\<close>

theorem readMessage_NIL_position:
  "readMessage parse3 message_reader empty_header 0 8 0
     = Inr (False, message_reader, empty_header)
   \<and> position message_reader = 0
   \<and> position message_reader + 8 \<noteq> position message_reader"
  by (simp add: readMessage_def message_reader_def Reader_open_def position_def)

text \<open>
  C5, amended: for every message type of the dispatch table other than NIL, once the
  message is processed the reader stands at the start of the payload plus the declared
  size, wherever the message parser left it, and the dispatcher returns true; a NIL
  message returns false and changes neither the reader nor the header.
\<close>

theorem readMessage_position:
  assumes "readMessage parse reader this type msize flags = Inr (next, reader', this')"
  shows "if type = 0 then \<not> next \<and> reader' = reader \<and> this' = this
         else next \<and> position reader' = position reader + msize"
proof (cases "type = 0")
  case True
  with assms show ?thesis by (simp add: readMessage_def)
next
  case False
  with assms obtain r1 r2 where "seek (position reader) r1 = Inr r2"
    and "skip msize r2 = Inr reader'" and "next"
    unfolding readMessage_def Let_def
    apply (simp only: if_False)
    apply (erule bind_err_InrE)
    apply (clarsimp simp: bind_err_def split: sum.splits)
    done
  with False show ?thesis
    by (simp add: seek_skip_position)
qed

lemma readMessage_example:
  "readMessage parse3 message_reader empty_header 0x11 8 0 =
     Inr (True, message_reader\<lparr>r_offset := 0, r_position := 8\<rparr>,
          empty_header\<lparr>h_symbolTable := Some ()\<rparr>)"
  by (simp add: readMessage_def message_reader_def Reader_open_def position_def parse3_def
      bind_err_def skip_def seek_def)

theorem readMessage_position_witness:
  "readMessage parse3 message_reader empty_header 0x11 8 0 =
     Inr (True, message_reader\<lparr>r_offset := 0, r_position := 8\<rparr>,
          empty_header\<lparr>h_symbolTable := Some ()\<rparr>)
   \<and> position (message_reader\<lparr>r_offset := 0, r_position := 8\<rparr>)
       = position message_reader + 8"
  using readMessage_position [OF readMessage_example] readMessage_example by simp

text \<open>
  The dispatcher does return for a handled message whose parser succeeds and whose
  declared size stays inside the buffer.
\<close>

lemma readMessage_returns:
  assumes "type \<in> {2, 3, 4, 5, 6, 8, 0xA, 0xB, 0xC, 0xD, 0xE, 0x10, 0x11, 0x12, 0x15}"
    and "parse type reader = Inr (m, r1)"
    and "position reader + msize \<le> int (length (buffer r1))"
    and "0 \<le> msize"
  shows "\<exists>this'. readMessage parse reader this type msize flags
           = Inr (True, r1\<lparr>r_offset := position reader, r_position := msize\<rparr>, this')"
proof -
  from assms(3,4) have "position reader \<le> int (length (buffer r1))" by simp
  with assms show ?thesis
    unfolding readMessage_def Let_def
    by (auto simp: bind_err_def seek_def skip_def)
qed


section \<open>Decoding arrays of variable-length strings\<close>

lemmas decode_defs = Dataspace_decode_def Datatype_decode_def js_get_def js_set_def
  shape_index_def shape_length_def plus1_def is_last_dimension_def below_def shape_as_heap_def
  vlen_string_def hello_heap_def hello_ref_def bind_err_def Variable_value_decode_def
  decodeLeaves.simps decodeArray.simps decodeRows.simps

text \<open>A scalar and a one-dimensional array are resolved against the heap.\<close>

lemma Dataspace_decode_scalar:
  "Dataspace_decode \<lparr>ds_dimensions = 0, ds_sizes = []\<rparr> vlen_string hello_ref (Heap hello_heap)
   = Inr (JString ''hello'')"
  by (simp add: decode_defs)

lemma Dataspace_decode_one_dimension:
  "Dataspace_decode \<lparr>ds_dimensions = 1, ds_sizes = [Some 2]\<rparr> vlen_string
     (JArray [hello_ref, hello_ref]) (Heap hello_heap)
   = Inr (JArray [JString ''hello'', JString ''hello''])"
  by (simp add: decode_defs)

text \<open>
  The callee of the recursive call sees a number as its shape and \<open>undefined\<close> as its
  dimension: its size is \<open>undefined\<close>, neither loop runs, and it returns its data.
\<close>

lemma decodeArray_shifted_arguments:
  "decodeArray datatype x (shape_as_heap shape) (plus1 dimension) None = Inr x"
  by (simp add: decodeArray.simps decodeRows.simps plus1_def is_last_dimension_def
      shape_index_def below_def)

lemma decodeRows_unchanged:
  "nat n - j = k \<Longrightarrow> nat n \<le> length xs \<Longrightarrow>
   decodeRows datatype shape dimension (Some n) j (JArray xs) = Inr (JArray xs)"
proof (induction k arbitrary: j)
  case 0
  then have "\<not> int j < n" by linarith
  then show ?case by (subst decodeRows.simps) (simp add: below_def)
next
  case (Suc k)
  then have j: "j < length xs" "int j < n" "nat n - Suc j = k" by auto
  from Suc.IH [OF j(3) Suc.prems(2)] j(1,2) show ?case
    by (subst decodeRows.simps)
       (simp add: below_def js_get_def js_set_def decodeArray_shifted_arguments)
qed

text \<open>
  So with two or more dimensions \<open>decode\<close> returns the array as it was read, whatever
  the datatype and the heap: no leaf goes through \<open>Datatype.decode\<close>.
\<close>

lemma Dataspace_decode_nested_unchanged:
  assumes "ds_dimensions this = length (ds_sizes this)" and "2 \<le> length (ds_sizes this)"
    and "ds_sizes this ! 0 = Some n" and "nat n \<le> length xs"
  shows "Dataspace_decode this datatype (JArray xs) globalHeap = Inr (JArray xs)"
proof -
  from assms(2) have "\<not> is_last_dimension (Some 0) (Sizes (ds_sizes this))"
    by (simp add: is_last_dimension_def shape_length_def)
  moreover from assms(2,3) have "shape_index (Sizes (ds_sizes this)) (Some 0) = Some n"
    by (auto simp: shape_index_def)
  moreover from assms(1,2) have "ds_dimensions this \<noteq> 0" by auto
  ultimately show ?thesis
    using decodeRows_unchanged [OF refl assms(4)]
    by (simp add: Dataspace_decode_def decodeArray.simps)
qed

text \<open>
  \<open>Variable.value\<close> hands the array itself to \<open>decode\<close> as the heap; a dataset of
  variable-length strings then fails at \<open>globalHeap.get\<close>.
\<close>

lemma Variable_value_decode_vlen:
  "Variable_value_decode \<lparr>ds_dimensions = 1, ds_sizes = [Some 1]\<rparr> vlen_string hello_heap
     (JArray [hello_ref]) = Inl (Type_Error ''globalHeap.get is not a function'')"
  by (simp add: decode_defs)

text \<open>
  C4. The claim: \<open>Dataspace.decode\<close> replaces every leaf of the array by its
  \<open>Datatype.decode\<close>, at every nesting depth.  For the 1 x 2 array of references to the
  heap text \<open>hello\<close>, each leaf decodes to that text, but \<open>decode\<close> returns the array
  with both references still in place.
\<close>

theorem Dataspace_decode_nested_vlen:
  "Datatype_decode vlen_string hello_ref (Heap hello_heap) = Inr (JString ''hello'')
   \<and> Dataspace_decode \<lparr>ds_dimensions = 2, ds_sizes = [Some 1, Some 2]\<rparr> vlen_string
        (JArray [JArray [hello_ref, hello_ref]]) (Heap hello_heap)
      = Inr (JArray [JArray [hello_ref, hello_ref]])"
  by (simp add: decode_defs)


section \<open>LZF decoding\<close>

lemma length_copy_back: "length (copy_back n off outp) = length outp + n"
  by (induction n off outp rule: copy_back.induct) auto

lemma lzf_ref_back_offset:
  "lzf_ref out (unat c) (unat lo) = int out - int (back_offset c lo)"
  by (simp add: lzf_ref_def back_offset_def)

lemma drop_step: "i < length xs \<Longrightarrow> drop i xs = xs ! i # drop (Suc i) xs"
  by (simp add: Cons_nth_drop_Suc)

lemma short_list: "length xs \<le> 1 \<Longrightarrow> xs = [] \<or> (\<exists>x. xs = [x])"
  by (cases xs) auto

lemma lzf_size_spec:
  "i \<le> length input \<Longrightarrow>
   lzf_size input i (length outp) =
     (case lzf_decode_spec (drop i input) outp of
        None \<Rightarrow> Inl invalid_lzf
      | Some r \<Rightarrow> Inr (length r))"
proof (induction "length input - i" arbitrary: i outp rule: less_induct)
  case less
  show ?case
  proof (cases "i < length input")
    case False
    with less.prems show ?thesis
      by (subst lzf_size.simps) simp
  next
    case True
    let ?c = "input ! i"
    let ?rest = "drop (Suc i) input"
    have d: "drop i input = ?c # ?rest"
      using True by (rule drop_step)
    have lrest: "length ?rest = length input - Suc i" by simp
    consider (lit) "unat ?c < 32"
      | (short) "\<not> unat ?c < 32" "unat ?c div 32 \<noteq> 7"
      | (long) "\<not> unat ?c < 32" "unat ?c div 32 = 7"
      by blast
    then show ?thesis
    proof cases
      case lit
      show ?thesis
      proof (cases "length ?rest < unat ?c + 1")
        case True
        then have "length input < Suc (Suc (i + unat ?c))"
          using \<open>i < length input\<close> by simp
        with True lit \<open>i < length input\<close> show ?thesis
          by (subst lzf_size.simps) (simp add: d Let_def)
      next
        case False
        let ?i2 = "i + 1 + (unat ?c + 1)"
        from False have i2: "?i2 \<le> length input" by simp
        have "length input - ?i2 < length input - i" using True by simp
        note ih = less.hyps [OF this i2, of "outp @ take (unat ?c + 1) ?rest"]
        have le: "\<not> length input < Suc (Suc (i + unat ?c))"
          using False True by simp
        have len: "min (length input - Suc i) (Suc (unat ?c)) = Suc (unat ?c)"
          using False by simp
        from ih le lit True False show ?thesis
          by (subst lzf_size.simps) (simp add: d Let_def len add.commute [of "unat ?c" i])
      qed
    next
      case short
      show ?thesis
      proof (cases "Suc i < length input")
        case False
        then have "?rest = []" by simp
        with short True False show ?thesis
          by (subst lzf_size.simps) (simp add: d Let_def)
      next
        case i1: True
        have d1: "?rest = input ! Suc i # drop (Suc (Suc i)) input"
          using i1 by (rule drop_step)
        let ?lo = "input ! Suc i"
        show ?thesis
        proof (cases "back_offset ?c ?lo > length outp")
          case True
          with short i1 \<open>i < length input\<close> show ?thesis
            by (subst lzf_size.simps) (simp add: d d1 Let_def lzf_ref_back_offset)
        next
          case False
          have "length input - Suc (Suc i) < length input - i" using i1 by simp
          from less.hyps [OF this, of "copy_back (unat ?c div 32 + 2) (back_offset ?c ?lo) outp"]
            False short i1 \<open>i < length input\<close>
          show ?thesis
            by (subst lzf_size.simps)
               (simp add: d d1 Let_def lzf_ref_back_offset length_copy_back add_ac)
        qed
      qed
    next
      case long
      show ?thesis
      proof (cases "Suc (Suc i) < length input")
        case False
        then have "length ?rest \<le> 1" by simp
        then have "?rest = [] \<or> (\<exists>x. ?rest = [x])"
          by (rule short_list)
        with long True False show ?thesis
          by (subst lzf_size.simps) (auto simp add: d Let_def)
      next
        case i2: True
        then have i1: "Suc i < length input" by simp
        have d1: "?rest = input ! Suc i # input ! Suc (Suc i) # drop (Suc (Suc (Suc i))) input"
          using i1 i2 by (simp add: drop_step)
        let ?ext = "input ! Suc i"
        let ?lo = "input ! Suc (Suc i)"
        show ?thesis
        proof (cases "back_offset ?c ?lo > length outp")
          case True
          with long i1 i2 \<open>i < length input\<close> show ?thesis
            by (subst lzf_size.simps) (simp add: d d1 Let_def lzf_ref_back_offset)
        next
          case False
          have "length input - Suc (Suc (Suc i)) < length input - i" using i2 by simp
          from less.hyps [OF this, of "copy_back (7 + unat ?ext + 2) (back_offset ?c ?lo) outp"]
            False long i1 i2 \<open>i < length input\<close>
          show ?thesis
            by (subst lzf_size.simps)
               (simp add: d d1 Let_def lzf_ref_back_offset length_copy_back add_ac)
        qed
      qed
    qed
  qed
qed


lemma lzf_decode_spec_mono:
  "lzf_decode_spec rest outp = Some r \<Longrightarrow> length outp \<le> length r"
proof (induction rest outp rule: lzf_decode_spec.induct)
  case (1 outp)
  then show ?case by simp
next
  case (2 c rest outp)
  then show ?case
    by (auto simp: length_copy_back split: if_splits list.splits)
qed

lemma copy_run_spec:
  "0 < off \<Longrightarrow> off \<le> length outp \<Longrightarrow> n \<le> k \<Longrightarrow>
   copy_run n (Some (int (length outp) - int off)) (length outp) (outp @ replicate k 0)
   = (copy_back n off outp @ replicate (k - n) 0, length outp + n)"
proof (induction n arbitrary: outp k)
  case 0
  then show ?case by simp
next
  case (Suc n)
  from Suc.prems obtain k' where k: "k = Suc k'" by (cases k) auto
  let ?v = "outp ! (length outp - off)"
  have lt: "length outp - off < length outp"
    using Suc.prems by simp
  have rd: "typed_read (outp @ replicate k 0) (Some (int (length outp) - int off)) = ?v"
    using Suc.prems lt by (simp add: typed_read_def nat_diff_distrib' nth_append)
  have wr: "typed_write (outp @ replicate k 0) (length outp) ?v = (outp @ [?v]) @ replicate k' 0"
    by (simp add: typed_write_def k)
  have ref: "int (length outp) - int off + 1 = int (length (outp @ [?v])) - int off"
    by simp
  from Suc.prems k have "n \<le> k'" "off \<le> length (outp @ [?v])" by simp_all
  from Suc.IH [OF Suc.prems(1) this(2) this(1)] show ?case
    unfolding copy_run.simps rd wr option.map ref
    by (simp add: k)
qed


lemma back_offset_pos: "0 < back_offset c lo"
  by (simp add: back_offset_def)

lemma lzf_copy_spec:
  "i \<le> length input \<Longrightarrow> lzf_decode_spec (drop i input) outp = Some r \<Longrightarrow>
   lzf_copy input i (length outp) (outp @ replicate (length r - length outp) 0)
     = Inr (r, length r)"
proof (induction "length input - i" arbitrary: i outp rule: less_induct)
  case less
  show ?case
  proof (cases "i < length input")
    case False
    with less.prems show ?thesis
      by (subst lzf_copy.simps) simp
  next
    case True
    let ?c = "input ! i"
    let ?rest = "drop (Suc i) input"
    let ?k = "length r - length outp"
    have d: "drop i input = ?c # ?rest"
      using True by (rule drop_step)
    note spec = less.prems(2) [unfolded d]
    consider (lit) "unat ?c < 32"
      | (short) "\<not> unat ?c < 32" "unat ?c div 32 \<noteq> 7"
      | (long) "\<not> unat ?c < 32" "unat ?c div 32 = 7"
      by blast
    then show ?thesis
    proof cases
      case lit
      let ?n = "Suc (unat ?c)"
      let ?lit = "take ?n ?rest"
      let ?i2 = "Suc (Suc (i + unat ?c))"
      from spec lit have enough: "?n \<le> length ?rest"
        and next_spec: "lzf_decode_spec (drop ?n ?rest) (outp @ ?lit) = Some r"
        by (auto split: if_splits)
      from enough have i2: "?i2 \<le> length input" by simp
      have dr: "drop ?n ?rest = drop ?i2 input"
        by (simp add: add.commute)
      have len_lit: "length ?lit = ?n"
        using enough by simp
      from lzf_decode_spec_mono [OF next_spec] len_lit
      have room: "length outp + ?n \<le> length r" by simp
      have sub: "subarray input (i + 1) (i + 1 + (unat ?c + 1)) = ?lit"
        by (simp add: subarray_def drop_take add.commute)
      have set_ok: "typed_array_set (outp @ replicate ?k 0) ?lit (length outp)
          = Inr ((outp @ ?lit) @ replicate (length r - length (outp @ ?lit)) 0)"
        using room len_lit by (simp add: typed_array_set_def del: length_take)
      have "length input - ?i2 < length input - i" using True by simp
      from less.hyps [OF this i2 next_spec [unfolded dr]]
      have ih: "lzf_copy input ?i2 (length outp + ?n)
          ((outp @ ?lit) @ replicate (length r - length (outp @ ?lit)) 0) = Inr (r, length r)"
        using len_lit by (simp del: length_take)
      show ?thesis
        apply (subst lzf_copy.simps)
        apply (simp only: Let_def True lit if_True sub set_ok sum.case)
        using ih apply (simp add: add.commute)
        done
    next
      case short
      from spec short obtain lo rest' where rest: "?rest = lo # rest'"
        and off: "back_offset ?c lo \<le> length outp"
        and next_spec: "lzf_decode_spec rest'
            (copy_back (unat ?c div 32 + 2) (back_offset ?c lo) outp) = Some r"
        by (auto split: if_splits list.splits)
      let ?n = "unat ?c div 32 + 2"
      let ?out' = "copy_back ?n (back_offset ?c lo) outp"
      from rest have i1: "Suc i < length input"
        by (metis drop_eq_Nil2 list.distinct(1) not_le_imp_less)
      from rest i1 have lo: "lo = input ! Suc i" and rest': "rest' = drop (Suc (Suc i)) input"
        by (simp_all add: drop_step [OF i1])
      from lzf_decode_spec_mono [OF next_spec]
      have room: "?n \<le> ?k" by (simp add: length_copy_back)
      have run: "copy_run ?n (Some (lzf_ref (length outp) (unat ?c) (unat lo))) (length outp)
          (outp @ replicate ?k 0) = (?out' @ replicate (length r - length ?out') 0, length ?out')"
        using copy_run_spec [OF back_offset_pos off room]
        by (simp add: lzf_ref_back_offset length_copy_back)
      have "length input - Suc (Suc i) < length input - i" using i1 by simp
      from less.hyps [OF this _ next_spec [unfolded rest']] i1
      have ih: "lzf_copy input (Suc (Suc i)) (length ?out')
          (?out' @ replicate (length r - length ?out') 0) = Inr (r, length r)"
        by simp
      show ?thesis
        apply (subst lzf_copy.simps)
        using short i1 True run ih
        apply (simp add: Let_def input_at_def lo)
        done
    next
      case long
      from spec long obtain ext lo rest' where rest: "?rest = ext # lo # rest'"
        and off: "back_offset ?c lo \<le> length outp"
        and next_spec: "lzf_decode_spec rest'
            (copy_back (7 + unat ext + 2) (back_offset ?c lo) outp) = Some r"
        by (auto split: if_splits list.splits)
      let ?n = "7 + unat ext + 2"
      let ?out' = "copy_back ?n (back_offset ?c lo) outp"
      from rest have "2 \<le> length ?rest" by simp
      then have i2: "Suc (Suc i) < length input" by simp
      then have i1: "Suc i < length input" by simp
      from rest i1 i2 have ext: "ext = input ! Suc i" and lo: "lo = input ! Suc (Suc i)"
        and rest': "rest' = drop (Suc (Suc (Suc i))) input"
        by (simp_all add: drop_step [OF i1] drop_step [OF i2])
      from lzf_decode_spec_mono [OF next_spec]
      have room: "?n \<le> ?k" by (simp add: length_copy_back)
      have run: "copy_run ?n (Some (lzf_ref (length outp) (unat ?c) (unat lo))) (length outp)
          (outp @ replicate ?k 0) = (?out' @ replicate (length r - length ?out') 0, length ?out')"
        using copy_run_spec [OF back_offset_pos off room]
        by (simp add: lzf_ref_back_offset length_copy_back)
      have "length input - Suc (Suc (Suc i)) < length input - i" using i2 by simp
      from less.hyps [OF this _ next_spec [unfolded rest']] i2
      have ih: "lzf_copy input (Suc (Suc (Suc i))) (length ?out')
          (?out' @ replicate (length r - length ?out') 0) = Inr (r, length r)"
        by simp
      show ?thesis
        apply (subst lzf_copy.simps)
        using long i1 i2 True run ih
        apply (simp add: Let_def input_at_def lo ext add_ac)
        done
    qed
  qed
qed

text \<open>
  C8. \<open>_lzf\<close> against the decoder of the format description.  Where that decoder
  fails (a truncated literal run, a truncated back-reference, a back-reference to before
  the start of the output) \<open>_lzf\<close> throws its decode error, from the first loop.
  Where it yields \<open>r\<close>, the first loop computes the size \<open>length r\<close>, and the second
  loop, run on the array of that size, ends with its cursor at \<open>length r\<close> and the array
  equal to \<open>r\<close>: it writes exactly the bytes the first loop counted, all inside the
  array, and no \<open>RangeError\<close> arises.
\<close>

theorem lzf_decode:
  "(case lzf_decode_spec input [] of
      None \<Rightarrow> lzf_size input 0 0 = Inl invalid_lzf \<and> lzf input = Inl invalid_lzf
    | Some r \<Rightarrow>
        lzf_size input 0 0 = Inr (length r) \<and>
        lzf_copy input 0 0 (replicate (length r) 0) = Inr (r, length r) \<and>
        lzf input = Inr r)"
proof (cases "lzf_decode_spec input []")
  case None
  with lzf_size_spec [of 0 input "[]"] show ?thesis
    by (simp add: lzf_def bind_err_def)
next
  case (Some r)
  with lzf_size_spec [of 0 input "[]"] lzf_copy_spec [of 0 input "[]" r] show ?thesis
    by (simp add: lzf_def bind_err_def)
qed

text \<open>Two runs: a literal run followed by a back-reference, and a truncated literal run.\<close>

lemma lzf_example:
  "lzf [2, 1, 2, 3, 0x20, 2] = Inr [1, 2, 3, 1, 2, 3] \<and> lzf [2, 1, 2] = Inl invalid_lzf"
  by (simp add: lzf_def bind_err_def lzf_size.simps lzf_copy.simps Let_def lzf_ref_def
      typed_array_set_def subarray_def input_at_def typed_read_def typed_write_def
      numeral_3_eq_3)


section \<open>Chunk reassembly\<close>

lemma foldl_mult_prod: "foldl (\<lambda>a b. a * b) a xs = a * prod_list xs"
  for a :: nat
  by (induction xs arbitrary: a) (simp_all add: mult.assoc)

lemma reduce_prod: "foldl (\<lambda>a b. a * b) 1 xs = prod_list xs"
  for xs :: "nat list"
  by (simp add: foldl_mult_prod)

lemma strides_loop_nat_inv:
  "n \<le> length shape \<Longrightarrow> length acc = length shape \<Longrightarrow> stride = prod_list (drop n shape) \<Longrightarrow>
   (\<And>i. n \<le> i \<Longrightarrow> i < length shape \<Longrightarrow> acc ! i = prod_list (drop (Suc i) shape)) \<Longrightarrow>
   strides_loop_nat shape n stride acc = oracle_strides shape"
proof (induction n arbitrary: stride acc)
  case 0
  then show ?case
    by (auto simp: oracle_strides_def intro!: nth_equalityI)
next
  case (Suc n)
  from Suc.prems(1) have n: "n < length shape" by simp
  have "strides_loop_nat shape n (stride * shape ! n) (acc[n := stride]) = oracle_strides shape"
  proof (rule Suc.IH)
    show "n \<le> length shape" using n by simp
    show "length (acc[n := stride]) = length shape" using Suc.prems(2) by simp
    show "stride * shape ! n = prod_list (drop n shape)"
      using Suc.prems(3) n by (simp add: Cons_nth_drop_Suc [symmetric])
    show "acc[n := stride] ! i = prod_list (drop (Suc i) shape)"
      if "n \<le> i" "i < length shape" for i
      using that Suc.prems(2,3,4) by (cases "i = n") auto
  qed
  then show ?case by simp
qed

lemma strides_loop_nat_oracle:
  "strides_loop_nat shape (length shape) 1 (replicate (length shape) 0) = oracle_strides shape"
  by (rule strides_loop_nat_inv) auto





lemma length_digits [simp]: "length (digits k ss) = length ss"
  by (induction ss arbitrary: k) auto

lemma length_inc_head [simp]: "length (inc_head xs) = length xs"
  by (cases xs) auto

lemma length_settle [simp]: "length (settle ss xs) = length xs"
  by (induction ss xs rule: settle.induct) auto




































subsection \<open>The loops on numbers and on natural numbers\<close>

lemma length_numbers [simp]: "length (numbers xs) = length xs"
  by (simp add: numbers_def)



lemma js_ge_Some [simp]: "js_ge (Some a) (Some b) \<longleftrightarrow> b \<le> a"
  by (simp add: js_ge_def)

lemma js_plus_Some [simp]: "js_plus (Some a) (Some b) = Some (a + b)"
  by (simp add: js_plus_def)

lemma js_times_Some [simp]: "js_times (Some a) (Some b) = Some (a * b)"
  by (simp add: js_times_def)










lemma length_increment_nat [simp]: "length (increment_nat xs m) = length xs"
  by (simp add: increment_nat_def)






subsection \<open>The chunked branch against the oracle\<close>







end
